theory Spec2Isabelle
  imports Main
begin

section \<open>The CI/CD pipeline script \<^verbatim>\<open>cicd-pipeline.js\<close>\<close>

text \<open>
  The script is glue code around four external collaborators: the version-control tool
  (\<^verbatim>\<open>simple-git\<close>), the test command (\<^verbatim>\<open>execSync\<close>), the container engine
  (\<^verbatim>\<open>dockerode\<close>) and the cluster API (\<^verbatim>\<open>@kubernetes/client-node\<close>). The embedding
  keeps the script's own control flow and data, and takes what each collaborator answers
  from a record of outcomes, the \<open>world\<close>. Every call the script makes to a collaborator
  and every line it prints is appended to a trace, in program order; the way a function
  ends (it returns, it throws, or it calls \<^verbatim>\<open>process.exit\<close>) is a value.

  The construction of the clients in lines 12 to 15 is not modelled: the embedding starts
  with the environment variables of lines 18 to 23 and the entry point of lines 131 to 136.
\<close>

subsection \<open>Errors and the ways a function ends\<close>

text \<open>
  A JavaScript exception value. \<open>TypeError\<close> is what reading a property of \<^verbatim>\<open>null\<close>
  throws; everything a collaborator rejects with is an \<open>Error\<close>. Both carry a message.
\<close>

datatype js_error = Error string | TypeError string

fun message :: "js_error \<Rightarrow> string" where
  "message (Error m) = m"
| "message (TypeError m) = m"

text \<open>
  What the script writes to the console. The constructors stand for the literal texts of
  the source (which carry non-ASCII check marks and crosses):
  \<^item> \<open>MsgRunningTests\<close>: line 27, "Running Rails unit tests...";
  \<^item> \<open>MsgTestsPassed\<close>: line 31, "Unit tests passed.";
  \<^item> \<open>MsgTestsFailed m\<close>: line 33, "Unit tests failed:" and the error's message;
  \<^item> \<open>MsgBuilding\<close>: line 40, "Building Docker image...";
  \<^item> \<open>MsgPushing\<close>: line 58, "Pushing Docker image...";
  \<^item> \<open>MsgPushed ref\<close>: line 67, "Docker image pushed:" and the full image name;
  \<^item> \<open>MsgBuildPushFailed m\<close>: line 70, "Docker build/push failed:" and the message;
  \<^item> \<open>MsgDeploying\<close>: line 77, "Deploying to Kubernetes...";
  \<^item> \<open>MsgDeployed\<close>: line 105, "Deployment created/updated in K8s.";
  \<^item> \<open>MsgDeployFailed m\<close>: line 107, "K8s deployment failed:" and the message;
  \<^item> \<open>MsgSkip\<close>: line 126, "Invalid action or not on production branch. Skipping deployment.";
  \<^item> \<open>MsgUsage\<close>: line 133, "Usage: node cicd-pipeline.js <test|deploy>";
  \<^item> \<open>MsgRejection e\<close>: line 136, the error object handed to \<^verbatim>\<open>console.error\<close>.
\<close>

datatype console_msg =
    MsgRunningTests
  | MsgTestsPassed
  | MsgTestsFailed string
  | MsgBuilding
  | MsgPushing
  | MsgPushed string
  | MsgBuildPushFailed string
  | MsgDeploying
  | MsgDeployed
  | MsgDeployFailed string
  | MsgSkip
  | MsgUsage
  | MsgRejection js_error

subsection \<open>Configuration (lines 18 to 23)\<close>

record config =
  DOCKER_REGISTRY :: string
  DOCKER_USERNAME :: "string option"
  DOCKER_PASSWORD :: "string option"
  K8S_NAMESPACE :: string

definition IMAGE_NAME :: string where
  "IMAGE_NAME = ''legal-app''"

definition K8S_DEPLOYMENT_NAME :: string where
  "K8S_DEPLOYMENT_NAME = ''legal-app-deployment''"

text \<open>
  \<^verbatim>\<open>process.env.X || d\<close>: an environment variable is a string when set and
  \<^verbatim>\<open>undefined\<close> when not; both \<^verbatim>\<open>undefined\<close> and the empty string are falsy, so
  both give the default.
\<close>

definition or_default :: "string option \<Rightarrow> string \<Rightarrow> string" where
  "or_default v d = (case v of None \<Rightarrow> d | Some s \<Rightarrow> if s = [] then d else s)"

definition load_config :: "(string \<rightharpoonup> string) \<Rightarrow> config" where
  "load_config env =
     \<lparr> DOCKER_REGISTRY = or_default (env ''DOCKER_REGISTRY'') ''your-registry.com'',
       DOCKER_USERNAME = env ''DOCKER_USERNAME'',
       DOCKER_PASSWORD = env ''DOCKER_PASSWORD'',
       K8S_NAMESPACE = or_default (env ''K8S_NAMESPACE'') ''default'' \<rparr>"

subsection \<open>Requests sent to the collaborators\<close>

text \<open>The \<^verbatim>\<open>authconfig\<close> object of lines 61 to 65.\<close>

record authconfig =
  username :: "string option"
  password :: "string option"
  serveraddress :: string

text \<open>The deployment object of lines 79 to 101, field by field.\<close>

record env_var =
  env_name :: string
  env_value :: string

record container =
  container_name :: string
  image :: string
  ports :: "nat list"
  env_vars :: "env_var list"

record pod_template =
  template_labels :: "(string \<times> string) list"
  containers :: "container list"

record deployment_spec =
  replicas :: nat
  matchLabels :: "(string \<times> string) list"
  template :: pod_template

record deployment =
  apiVersion :: string
  kind :: string
  metadata_name :: string
  metadata_namespace :: string
  spec :: deployment_spec

text \<open>
  The deployment operations of the cluster API client (\<^verbatim>\<open>AppsV1Api\<close>). The script calls
  \<^verbatim>\<open>createNamespacedDeployment\<close> only (line 104); the other three are listed so that
  their absence from a trace can be stated.
\<close>

datatype k8s_request =
    CreateNamespacedDeployment string deployment
  | ReadNamespacedDeployment string string
  | PatchNamespacedDeployment string string deployment
  | ReplaceNamespacedDeployment string string deployment

text \<open>
  One entry of the trace: a call to a collaborator, or a console line.
  \<^item> \<open>GitBranch\<close>: \<^verbatim>\<open>git.branch()\<close>, lines 42 and 115;
  \<^item> \<open>GitLog n\<close>: \<^verbatim>\<open>git.log({ n: 1 })\<close>, line 43;
  \<^item> \<open>ExecSync cmd\<close>: \<^verbatim>\<open>execSync(cmd, ...)\<close>, line 30;
  \<^item> \<open>DockerBuildImage src t\<close>: \<^verbatim>\<open>docker.buildImage({context, src}, {t})\<close>, line 49;
  \<^item> \<open>DockerFollowProgress\<close>: draining the build's progress stream, lines 53 to 55;
  \<^item> \<open>DockerPush ref auth\<close>: \<^verbatim>\<open>docker.getImage(ref).push({authconfig})\<close>, lines 59 to 66;
  \<^item> \<open>K8sApi r\<close>: a request to the cluster API, line 104.
\<close>

datatype event =
    GitBranch
  | GitLog nat
  | ExecSync string
  | DockerBuildImage "string list" string
  | DockerFollowProgress
  | DockerPush string authconfig
  | K8sApi k8s_request
  | ConsoleLog console_msg
  | ConsoleError console_msg

subsection \<open>The collaborators' answers\<close>

text \<open>
  \<^verbatim>\<open>git.log({ n: 1 })\<close> resolves to an object whose \<^verbatim>\<open>latest\<close> is the newest commit, or
  \<^verbatim>\<open>null\<close> when the log is empty; of the commit only its hash is read.
\<close>

record log_result =
  latest :: "string option"

text \<open>
  What each external call answers in one run: \<open>Inl e\<close> when the call throws or its promise
  rejects with \<open>e\<close>, \<open>Inr v\<close> when it gives \<open>v\<close>. The version-control tool is asked for the
  branch twice, by \<^verbatim>\<open>main\<close> (line 115) and by \<^verbatim>\<open>buildDockerImage\<close> (line 42), on two
  separate \<^verbatim>\<open>simpleGit()\<close> instances: the two answers are two fields. The calls that take
  arguments answer as functions of them.
\<close>

record world =
  git_branch_main :: "js_error + string"
  exec_sync :: "string \<Rightarrow> js_error + unit"
  git_branch_build :: "js_error + string"
  git_log_build :: "js_error + log_result"
  docker_buildImage :: "string list \<Rightarrow> string \<Rightarrow> js_error + unit"
  docker_followProgress :: "js_error + unit"
  image_push :: "string \<Rightarrow> authconfig \<Rightarrow> js_error + unit"
  k8s_createNamespacedDeployment :: "string \<Rightarrow> deployment \<Rightarrow> js_error + unit"

subsection \<open>Control flow: return, throw, \<^verbatim>\<open>process.exit\<close>\<close>

text \<open>
  \<open>Returned v\<close>: the (async) function ran to its end with value \<open>v\<close>. \<open>Thrown e\<close>: it threw,
  or its promise rejected, with \<open>e\<close>. \<open>Exited n\<close>: it called \<^verbatim>\<open>process.exit(n)\<close>, which ends
  the process on the spot: no handler and no later statement runs.
\<close>

datatype 'a completion = Returned 'a | Thrown js_error | Exited nat

type_synonym 'a proc = "event list \<times> 'a completion"

definition emit :: "event \<Rightarrow> unit proc" where
  "emit e = ([e], Returned ())"

definition process_exit :: "nat \<Rightarrow> 'a proc" where
  "process_exit n = ([], Exited n)"

text \<open>An awaited call: the event is recorded, a rejection is rethrown by \<^verbatim>\<open>await\<close>.\<close>

definition await_call :: "event \<Rightarrow> js_error + 'a \<Rightarrow> 'a proc" where
  "await_call e r = ([e], case r of Inl err \<Rightarrow> Thrown err | Inr v \<Rightarrow> Returned v)"

text \<open>Sequencing: the second statement runs only if the first one returned.\<close>

definition and_then :: "'a proc \<Rightarrow> ('a \<Rightarrow> 'b proc) \<Rightarrow> 'b proc" where
  "and_then m f =
     (case m of
        (tr, Returned v) \<Rightarrow> (case f v of (tr', c) \<Rightarrow> (tr @ tr', c))
      | (tr, Thrown e) \<Rightarrow> (tr, Thrown e)
      | (tr, Exited n) \<Rightarrow> (tr, Exited n))"

text \<open>
  \<^verbatim>\<open>try { m } catch (error) { h }\<close>, and likewise \<^verbatim>\<open>promise.catch(h)\<close>: the handler runs
  only on a throw; a \<^verbatim>\<open>process.exit\<close> inside \<open>m\<close> is not caught.
\<close>

definition try_catch :: "'a proc \<Rightarrow> (js_error \<Rightarrow> 'a proc) \<Rightarrow> 'a proc" where
  "try_catch m h =
     (case m of
        (tr, Thrown e) \<Rightarrow> (case h e of (tr', c) \<Rightarrow> (tr @ tr', c))
      | (tr, Returned v) \<Rightarrow> (tr, Returned v)
      | (tr, Exited n) \<Rightarrow> (tr, Exited n))"

subsection \<open>The three stages\<close>

text \<open>Line 30: the test command handed to \<^verbatim>\<open>execSync\<close>.\<close>

definition test_command :: string where
  "test_command = ''bundle exec rails test''"

text \<open>\<^verbatim>\<open>runUnitTests\<close>, lines 26 to 36.\<close>

definition runUnitTests :: "world \<Rightarrow> unit proc" where
  "runUnitTests w =
     and_then (emit (ConsoleLog MsgRunningTests)) (\<lambda>_.
     try_catch
       (and_then (await_call (ExecSync test_command) (exec_sync w test_command)) (\<lambda>_.
        emit (ConsoleLog MsgTestsPassed)))
       (\<lambda>error.
        and_then (emit (ConsoleError (MsgTestsFailed (message error)))) (\<lambda>_.
        process_exit 1)))"

text \<open>Line 44: the tag, from the branch and the commit hash.\<close>

definition image_tag :: "string \<Rightarrow> string \<Rightarrow> string" where
  "image_tag branch commit =
     (if branch = ''production'' then ''prod-'' @ commit else ''dev-'' @ commit)"

text \<open>Line 45: the full image name, from the registry, the image name and the tag.\<close>

definition full_image_name :: "config \<Rightarrow> string \<Rightarrow> string" where
  "full_image_name cfg tag = DOCKER_REGISTRY cfg @ ''/'' @ IMAGE_NAME @ '':'' @ tag"

text \<open>Line 51: the files and directories sent as the build context.\<close>

definition build_src :: "string list" where
  "build_src = [''Dockerfile'', ''Gemfile'', ''Gemfile.lock'', ''app/'', ''config/'', ''db/'', ''lib/'']"

text \<open>Line 43: \<^verbatim>\<open>(await git.log({ n: 1 })).latest.hash\<close>; reading \<^verbatim>\<open>hash\<close> of \<^verbatim>\<open>null\<close> throws.\<close>

definition latest_hash :: "log_result \<Rightarrow> string proc" where
  "latest_hash r =
     (case latest r of
        None \<Rightarrow> ([], Thrown (TypeError ''Cannot read properties of null''))
      | Some h \<Rightarrow> ([], Returned h))"

text \<open>
  \<^verbatim>\<open>buildDockerImage\<close>, lines 39 to 73. The two version-control queries of lines 42 and 43
  stand before the \<^verbatim>\<open>try\<close> of line 47: what they throw leaves the function.
\<close>

definition buildDockerImage :: "config \<Rightarrow> world \<Rightarrow> string proc" where
  "buildDockerImage cfg w =
     and_then (emit (ConsoleLog MsgBuilding)) (\<lambda>_.
     and_then (await_call GitBranch (git_branch_build w)) (\<lambda>branch.
     and_then (and_then (await_call (GitLog 1) (git_log_build w)) latest_hash) (\<lambda>commit.
     let tag = image_tag branch commit;
         fullImageName = full_image_name cfg tag
     in
     try_catch
       (and_then (await_call (DockerBuildImage build_src fullImageName)
                    (docker_buildImage w build_src fullImageName)) (\<lambda>_.
        and_then (await_call DockerFollowProgress (docker_followProgress w)) (\<lambda>_.
        and_then (emit (ConsoleLog MsgPushing)) (\<lambda>_.
        let auth = \<lparr> username = DOCKER_USERNAME cfg,
                     password = DOCKER_PASSWORD cfg,
                     serveraddress = DOCKER_REGISTRY cfg \<rparr>
        in
        and_then (await_call (DockerPush fullImageName auth)
                    (image_push w fullImageName auth)) (\<lambda>_.
        and_then (emit (ConsoleLog (MsgPushed fullImageName))) (\<lambda>_.
        ([], Returned fullImageName)))))))
       (\<lambda>error.
        and_then (emit (ConsoleError (MsgBuildPushFailed (message error)))) (\<lambda>_.
        process_exit 1)))))"

text \<open>Lines 79 to 101: the descriptor, for an image name.\<close>

definition make_deployment :: "config \<Rightarrow> string \<Rightarrow> deployment" where
  "make_deployment cfg imageName =
     \<lparr> apiVersion = ''apps/v1'',
       kind = ''Deployment'',
       metadata_name = K8S_DEPLOYMENT_NAME,
       metadata_namespace = K8S_NAMESPACE cfg,
       spec = \<lparr>
         replicas = 3,
         matchLabels = [(''app'', ''legal-app'')],
         template = \<lparr>
           template_labels = [(''app'', ''legal-app'')],
           containers = [\<lparr>
             container_name = ''legal-app'',
             image = imageName,
             ports = [3000],
             env_vars = [\<lparr> env_name = ''RAILS_ENV'', env_value = ''production'' \<rparr>] \<rparr>] \<rparr> \<rparr> \<rparr>"

text \<open>\<^verbatim>\<open>deployToK8s\<close>, lines 76 to 110.\<close>

definition deployToK8s :: "config \<Rightarrow> world \<Rightarrow> string \<Rightarrow> unit proc" where
  "deployToK8s cfg w imageName =
     and_then (emit (ConsoleLog MsgDeploying)) (\<lambda>_.
     try_catch
       (let deployment = make_deployment cfg imageName in
        and_then (await_call (K8sApi (CreateNamespacedDeployment (K8S_NAMESPACE cfg) deployment))
                    (k8s_createNamespacedDeployment w (K8S_NAMESPACE cfg) deployment)) (\<lambda>_.
        emit (ConsoleLog MsgDeployed)))
       (\<lambda>error.
        and_then (emit (ConsoleError (MsgDeployFailed (message error)))) (\<lambda>_.
        process_exit 1)))"

subsection \<open>The controller and the entry point\<close>

text \<open>\<^verbatim>\<open>main\<close>, lines 113 to 128.\<close>

definition main :: "config \<Rightarrow> world \<Rightarrow> string \<Rightarrow> unit proc" where
  "main cfg w action =
     and_then (await_call GitBranch (git_branch_main w)) (\<lambda>branch.
     if action = ''test'' then
       runUnitTests w
     else if action = ''deploy'' \<and> branch = ''production'' then
       and_then (runUnitTests w) (\<lambda>_.
       and_then (buildDockerImage cfg w) (\<lambda>imageName.
       deployToK8s cfg w imageName))
     else
       emit (ConsoleLog MsgSkip))"

text \<open>
  Lines 131 to 136. \<open>argv2\<close> is \<^verbatim>\<open>process.argv[2]\<close>: \<open>None\<close> when no argument was given
  (\<^verbatim>\<open>undefined\<close>). \<^verbatim>\<open>!action\<close> holds for \<^verbatim>\<open>undefined\<close> and for the empty string. The
  handler of line 136 prints the rejection and does nothing else.
\<close>

definition cli :: "(string \<rightharpoonup> string) \<Rightarrow> string option \<Rightarrow> world \<Rightarrow> unit proc" where
  "cli env argv2 w =
     (case argv2 of
        None \<Rightarrow> and_then (emit (ConsoleLog MsgUsage)) (\<lambda>_. process_exit 1)
      | Some action \<Rightarrow>
          if action = [] then and_then (emit (ConsoleLog MsgUsage)) (\<lambda>_. process_exit 1)
          else try_catch (main (load_config env) w action)
                 (\<lambda>err. emit (ConsoleError (MsgRejection err))))"

text \<open>
  The exit code of the process: the argument of \<^verbatim>\<open>process.exit\<close> when it was called, 0 when
  the script ran to its end, 1 for an exception nobody caught.
\<close>

fun exit_code :: "'a completion \<Rightarrow> nat" where
  "exit_code (Returned _) = 0"
| "exit_code (Exited n) = n"
| "exit_code (Thrown _) = 1"

definition trace_of :: "'a proc \<Rightarrow> event list" where
  "trace_of p = fst p"

definition exit_of :: "'a proc \<Rightarrow> nat" where
  "exit_of p = exit_code (snd p)"

text \<open>Which trace entries belong to which component.\<close>

fun is_vcs_call :: "event \<Rightarrow> bool" where
  "is_vcs_call GitBranch = True"
| "is_vcs_call (GitLog _) = True"
| "is_vcs_call _ = False"

fun is_test_call :: "event \<Rightarrow> bool" where
  "is_test_call (ExecSync _) = True"
| "is_test_call _ = False"

fun is_docker_call :: "event \<Rightarrow> bool" where
  "is_docker_call (DockerBuildImage _ _) = True"
| "is_docker_call DockerFollowProgress = True"
| "is_docker_call (DockerPush _ _) = True"
| "is_docker_call _ = False"

fun is_k8s_call :: "event \<Rightarrow> bool" where
  "is_k8s_call (K8sApi _) = True"
| "is_k8s_call _ = False"

text \<open>The calls with an effect outside the process: test run, container engine, cluster API.\<close>

definition is_stage_call :: "event \<Rightarrow> bool" where
  "is_stage_call e = (is_test_call e \<or> is_docker_call e \<or> is_k8s_call e)"

text \<open>What a trace holds for the container engine and for the cluster API.\<close>

fun built_images :: "event list \<Rightarrow> string list" where
  "built_images [] = []"
| "built_images (DockerBuildImage src t # es) = t # built_images es"
| "built_images (e # es) = built_images es"

fun pushes :: "event list \<Rightarrow> (string \<times> authconfig) list" where
  "pushes [] = []"
| "pushes (DockerPush ref auth # es) = (ref, auth) # pushes es"
| "pushes (e # es) = pushes es"

fun k8s_requests :: "event list \<Rightarrow> k8s_request list" where
  "k8s_requests [] = []"
| "k8s_requests (K8sApi r # es) = r # k8s_requests es"
| "k8s_requests (e # es) = k8s_requests es"

subsection \<open>Example inputs\<close>

text \<open>
  A run in which every collaborator succeeds, on branch \<open>production\<close> at commit
  \<open>a1b2c3\<close>. The other example inputs are record updates of it.
\<close>

definition ok_world :: world where
  "ok_world =
     \<lparr> git_branch_main = Inr ''production'',
       exec_sync = (\<lambda>_. Inr ()),
       git_branch_build = Inr ''production'',
       git_log_build = Inr \<lparr> latest = Some ''a1b2c3'' \<rparr>,
       docker_buildImage = (\<lambda>_ _. Inr ()),
       docker_followProgress = Inr (),
       image_push = (\<lambda>_ _. Inr ()),
       k8s_createNamespacedDeployment = (\<lambda>_ _. Inr ()) \<rparr>"

section \<open>How the script runs, path by path\<close>

lemmas proc_defs = emit_def process_exit_def await_call_def and_then_def try_catch_def

subsection \<open>Sequencing and handlers, on pairs\<close>

lemma and_then_Returned: "and_then (tr, Returned v) f = (tr @ fst (f v), snd (f v))"
  by (simp add: and_then_def split: prod.splits)

lemma and_then_Thrown: "and_then (tr, Thrown e) f = (tr, Thrown e)"
  by (simp add: and_then_def)

lemma and_then_Exited: "and_then (tr, Exited n) f = (tr, Exited n)"
  by (simp add: and_then_def)

lemma try_catch_Returned: "try_catch (tr, Returned v) h = (tr, Returned v)"
  by (simp add: try_catch_def)

lemma try_catch_Thrown: "try_catch (tr, Thrown e) h = (tr @ fst (h e), snd (h e))"
  by (simp add: try_catch_def split: prod.splits)

lemma try_catch_Exited: "try_catch (tr, Exited n) h = (tr, Exited n)"
  by (simp add: try_catch_def)

lemmas seq_simps = and_then_Returned and_then_Thrown and_then_Exited
  try_catch_Returned try_catch_Thrown try_catch_Exited

subsection \<open>The stages, outcome by outcome\<close>

lemma runUnitTests_pass:
  "exec_sync w test_command = Inr u \<Longrightarrow>
   runUnitTests w =
     ([ConsoleLog MsgRunningTests, ExecSync test_command, ConsoleLog MsgTestsPassed], Returned ())"
  by (simp add: runUnitTests_def proc_defs)

lemma runUnitTests_fail:
  "exec_sync w test_command = Inl e \<Longrightarrow>
   runUnitTests w =
     ([ConsoleLog MsgRunningTests, ExecSync test_command,
       ConsoleError (MsgTestsFailed (message e))], Exited 1)"
  by (simp add: runUnitTests_def proc_defs)

lemma buildDockerImage_branch_rejected:
  "git_branch_build w = Inl e \<Longrightarrow>
   buildDockerImage cfg w = ([ConsoleLog MsgBuilding, GitBranch], Thrown e)"
  by (simp add: buildDockerImage_def proc_defs)

lemma buildDockerImage_log_rejected:
  "git_branch_build w = Inr branch \<Longrightarrow> git_log_build w = Inl e \<Longrightarrow>
   buildDockerImage cfg w = ([ConsoleLog MsgBuilding, GitBranch, GitLog 1], Thrown e)"
  by (simp add: buildDockerImage_def proc_defs)

lemma buildDockerImage_log_empty:
  "git_branch_build w = Inr branch \<Longrightarrow> git_log_build w = Inr r \<Longrightarrow> latest r = None \<Longrightarrow>
   buildDockerImage cfg w =
     ([ConsoleLog MsgBuilding, GitBranch, GitLog 1],
      Thrown (TypeError ''Cannot read properties of null''))"
  by (simp add: buildDockerImage_def latest_hash_def proc_defs)

text \<open>
  Once both queries have answered, the function ends inside its \<^verbatim>\<open>try\<close>: it returns
  the full image name or calls \<^verbatim>\<open>process.exit(1)\<close>.
\<close>

lemma buildDockerImage_queried:
  assumes "git_branch_build w = Inr branch"
    and "git_log_build w = Inr r" and "latest r = Some commit"
    and "ref = full_image_name cfg (image_tag branch commit)"
    and "auth = \<lparr> username = DOCKER_USERNAME cfg, password = DOCKER_PASSWORD cfg,
                   serveraddress = DOCKER_REGISTRY cfg \<rparr>"
  shows "buildDockerImage cfg w =
     (case docker_buildImage w build_src ref of
        Inl e \<Rightarrow>
          ([ConsoleLog MsgBuilding, GitBranch, GitLog 1, DockerBuildImage build_src ref,
            ConsoleError (MsgBuildPushFailed (message e))], Exited 1)
      | Inr _ \<Rightarrow>
         (case docker_followProgress w of
            Inl e \<Rightarrow>
              ([ConsoleLog MsgBuilding, GitBranch, GitLog 1, DockerBuildImage build_src ref,
                DockerFollowProgress, ConsoleError (MsgBuildPushFailed (message e))], Exited 1)
          | Inr _ \<Rightarrow>
             (case image_push w ref auth of
                Inl e \<Rightarrow>
                  ([ConsoleLog MsgBuilding, GitBranch, GitLog 1, DockerBuildImage build_src ref,
                    DockerFollowProgress, ConsoleLog MsgPushing, DockerPush ref auth,
                    ConsoleError (MsgBuildPushFailed (message e))], Exited 1)
              | Inr _ \<Rightarrow>
                  ([ConsoleLog MsgBuilding, GitBranch, GitLog 1, DockerBuildImage build_src ref,
                    DockerFollowProgress, ConsoleLog MsgPushing, DockerPush ref auth,
                    ConsoleLog (MsgPushed ref)], Returned ref))))"
  using assms
  by (simp add: buildDockerImage_def latest_hash_def proc_defs Let_def split: sum.splits)

lemma deployToK8s_outcomes:
  "deployToK8s cfg w imageName =
     (case k8s_createNamespacedDeployment w (K8S_NAMESPACE cfg) (make_deployment cfg imageName) of
        Inl e \<Rightarrow>
          ([ConsoleLog MsgDeploying,
            K8sApi (CreateNamespacedDeployment (K8S_NAMESPACE cfg) (make_deployment cfg imageName)),
            ConsoleError (MsgDeployFailed (message e))], Exited 1)
      | Inr _ \<Rightarrow>
          ([ConsoleLog MsgDeploying,
            K8sApi (CreateNamespacedDeployment (K8S_NAMESPACE cfg) (make_deployment cfg imageName)),
            ConsoleLog MsgDeployed], Returned ()))"
  by (simp add: deployToK8s_def proc_defs Let_def split: sum.splits)

subsection \<open>The controller, path by path\<close>

lemma cli_action:
  "action \<noteq> [] \<Longrightarrow>
   cli env (Some action) w =
     try_catch (main (load_config env) w action) (\<lambda>err. emit (ConsoleError (MsgRejection err)))"
  by (simp add: cli_def)

lemma main_branch_rejected:
  "git_branch_main w = Inl e \<Longrightarrow> main cfg w action = ([GitBranch], Thrown e)"
  by (simp add: main_def proc_defs)

lemma main_test:
  "git_branch_main w = Inr branch \<Longrightarrow>
   main cfg w ''test'' = (GitBranch # fst (runUnitTests w), snd (runUnitTests w))"
  by (simp add: main_def await_call_def and_then_Returned)

lemma main_skip:
  "git_branch_main w = Inr branch \<Longrightarrow> action \<noteq> ''test'' \<Longrightarrow>
   \<not> (action = ''deploy'' \<and> branch = ''production'') \<Longrightarrow>
   main cfg w action = ([GitBranch, ConsoleLog MsgSkip], Returned ())"
  by (auto simp: main_def proc_defs)

lemma main_deploy_tests_failed:
  "git_branch_main w = Inr ''production'' \<Longrightarrow> exec_sync w test_command = Inl e \<Longrightarrow>
   main cfg w ''deploy'' =
     ([GitBranch, ConsoleLog MsgRunningTests, ExecSync test_command,
       ConsoleError (MsgTestsFailed (message e))], Exited 1)"
  by (simp add: main_def await_call_def runUnitTests_fail seq_simps)

lemma main_deploy_tests_passed:
  "git_branch_main w = Inr ''production'' \<Longrightarrow> exec_sync w test_command = Inr u \<Longrightarrow>
   main cfg w ''deploy'' =
     (case buildDockerImage cfg w of
        (tr, Returned ref) \<Rightarrow>
          ([GitBranch, ConsoleLog MsgRunningTests, ExecSync test_command, ConsoleLog MsgTestsPassed]
             @ tr @ fst (deployToK8s cfg w ref),
           snd (deployToK8s cfg w ref))
      | (tr, Thrown e) \<Rightarrow>
          ([GitBranch, ConsoleLog MsgRunningTests, ExecSync test_command, ConsoleLog MsgTestsPassed]
             @ tr, Thrown e)
      | (tr, Exited n) \<Rightarrow>
          ([GitBranch, ConsoleLog MsgRunningTests, ExecSync test_command, ConsoleLog MsgTestsPassed]
             @ tr, Exited n))"
  by (simp add: main_def await_call_def runUnitTests_pass seq_simps
      split: prod.splits completion.splits)


lemma main_deploy_trace:
  "git_branch_main w = Inr ''production'' \<Longrightarrow> exec_sync w test_command = Inr u \<Longrightarrow>
   fst (main cfg w ''deploy'') =
     [GitBranch, ConsoleLog MsgRunningTests, ExecSync test_command, ConsoleLog MsgTestsPassed]
       @ fst (buildDockerImage cfg w)
       @ (case snd (buildDockerImage cfg w) of
            Returned ref \<Rightarrow> fst (deployToK8s cfg w ref)
          | Thrown e \<Rightarrow> []
          | Exited n \<Rightarrow> [])"
  by (simp add: main_deploy_tests_passed split: prod.splits completion.splits)

lemma main_deploy_completion:
  "git_branch_main w = Inr ''production'' \<Longrightarrow> exec_sync w test_command = Inr u \<Longrightarrow>
   snd (main cfg w ''deploy'') =
     (case snd (buildDockerImage cfg w) of
        Returned ref \<Rightarrow> snd (deployToK8s cfg w ref)
      | Thrown e \<Rightarrow> Thrown e
      | Exited n \<Rightarrow> Exited n)"
  by (simp add: main_deploy_tests_passed split: prod.splits completion.splits)

text \<open>Line 136: what the handler adds to the trace of \<^verbatim>\<open>main\<close>, and the exit code.\<close>

lemma cli_trace:
  "action \<noteq> [] \<Longrightarrow>
   trace_of (cli env (Some action) w) =
     fst (main (load_config env) w action)
       @ (case snd (main (load_config env) w action) of
            Thrown e \<Rightarrow> [ConsoleError (MsgRejection e)]
          | Returned v \<Rightarrow> []
          | Exited n \<Rightarrow> [])"
  by (cases "main (load_config env) w action")
    (simp add: cli_action trace_of_def try_catch_def emit_def split: completion.splits)

lemma cli_exit:
  "action \<noteq> [] \<Longrightarrow>
   exit_of (cli env (Some action) w) =
     (case snd (main (load_config env) w action) of
        Exited n \<Rightarrow> n
      | Returned v \<Rightarrow> 0
      | Thrown e \<Rightarrow> 0)"
  by (cases "main (load_config env) w action")
    (simp add: cli_action exit_of_def try_catch_def emit_def split: completion.splits)

lemma deployToK8s_never_throws: "snd (deployToK8s cfg w ref) \<noteq> Thrown e"
  by (simp add: deployToK8s_outcomes split: sum.splits)

subsection \<open>What a run asks of the cluster API\<close>

lemma k8s_requests_append: "k8s_requests (a @ b) = k8s_requests a @ k8s_requests b"
  by (induction a rule: k8s_requests.induct) simp_all

lemma built_images_append: "built_images (a @ b) = built_images a @ built_images b"
  by (induction a rule: built_images.induct) simp_all

lemma pushes_append: "pushes (a @ b) = pushes a @ pushes b"
  by (induction a rule: pushes.induct) simp_all

lemma k8s_requests_runUnitTests: "k8s_requests (fst (runUnitTests w)) = []"
  by (cases "exec_sync w test_command") (simp_all add: runUnitTests_pass runUnitTests_fail)

lemma k8s_requests_buildDockerImage: "k8s_requests (fst (buildDockerImage cfg w)) = []"
proof (cases "git_branch_build w")
  case (Inl e)
  then show ?thesis by (simp add: buildDockerImage_branch_rejected)
next
  case branch: (Inr branch)
  show ?thesis
  proof (cases "git_log_build w")
    case (Inl e)
    with branch show ?thesis by (simp add: buildDockerImage_log_rejected)
  next
    case log: (Inr r)
    show ?thesis
    proof (cases "latest r")
      case None
      with branch log show ?thesis by (simp add: buildDockerImage_log_empty)
    next
      case (Some commit)
      show ?thesis
        by (simp add: buildDockerImage_queried [OF branch log Some refl refl] split: sum.splits)
    qed
  qed
qed

lemma k8s_requests_deployToK8s:
  "k8s_requests (fst (deployToK8s cfg w ref)) =
     [CreateNamespacedDeployment (K8S_NAMESPACE cfg) (make_deployment cfg ref)]"
  by (simp add: deployToK8s_outcomes split: sum.splits)

lemma k8s_requests_main:
  "k8s_requests (fst (main cfg w action)) =
     (if action = ''deploy'' \<and> git_branch_main w = Inr ''production''
         \<and> exec_sync w test_command = Inr ()
      then (case snd (buildDockerImage cfg w) of
              Returned ref \<Rightarrow>
                [CreateNamespacedDeployment (K8S_NAMESPACE cfg) (make_deployment cfg ref)]
            | Thrown e \<Rightarrow> []
            | Exited n \<Rightarrow> [])
      else [])"
proof (cases "git_branch_main w")
  case (Inl e)
  then show ?thesis by (simp add: main_branch_rejected)
next
  case branch: (Inr branch)
  show ?thesis
  proof (cases "action = ''test''")
    case True
    with branch show ?thesis by (simp add: main_test k8s_requests_runUnitTests)
  next
    case not_test: False
    show ?thesis
    proof (cases "action = ''deploy'' \<and> branch = ''production''")
      case False
      with branch not_test show ?thesis by (auto simp: main_skip)
    next
      case True
      show ?thesis
      proof (cases "exec_sync w test_command")
        case (Inl e)
        with branch True show ?thesis by (simp add: main_deploy_tests_failed)
      next
        case (Inr u)
        obtain tr c where b: "buildDockerImage cfg w = (tr, c)"
          by (cases "buildDockerImage cfg w")
        have tr: "k8s_requests tr = []"
          using k8s_requests_buildDockerImage [of cfg w] b by simp
        from branch True Inr b tr show ?thesis
          by (cases c)
            (simp_all add: main_deploy_tests_passed k8s_requests_append k8s_requests_deployToK8s)
      qed
    qed
  qed
qed

lemma k8s_requests_cli:
  "k8s_requests (trace_of (cli env argv2 w)) =
     (if argv2 = Some ''deploy'' \<and> git_branch_main w = Inr ''production''
         \<and> exec_sync w test_command = Inr ()
      then (case snd (buildDockerImage (load_config env) w) of
              Returned ref \<Rightarrow>
                [CreateNamespacedDeployment (K8S_NAMESPACE (load_config env))
                   (make_deployment (load_config env) ref)]
            | Thrown e \<Rightarrow> []
            | Exited n \<Rightarrow> [])
      else [])"
proof (cases argv2)
  case None
  then show ?thesis by (simp add: cli_def trace_of_def proc_defs)
next
  case (Some action)
  show ?thesis
  proof (cases "action = []")
    case True
    with Some show ?thesis by (simp add: cli_def trace_of_def proc_defs)
  next
    case False
    obtain tr c where m: "main (load_config env) w action = (tr, c)"
      by (cases "main (load_config env) w action")
    have "k8s_requests (trace_of (cli env argv2 w)) = k8s_requests tr"
      using Some False m
      by (cases c) (simp_all add: cli_action trace_of_def seq_simps emit_def k8s_requests_append)
    also have "k8s_requests tr = k8s_requests (fst (main (load_config env) w action))"
      using m by simp
    finally show ?thesis
      using Some by (simp add: k8s_requests_main)
  qed
qed


lemma buildDockerImage_Returned:
  assumes "buildDockerImage cfg w = (tr, Returned ref)"
  shows "\<exists>branch commit.
           git_branch_build w = Inr branch \<and> git_log_build w = Inr \<lparr> latest = Some commit \<rparr>
         \<and> ref = full_image_name cfg (image_tag branch commit)
         \<and> built_images tr = [ref]
         \<and> pushes tr = [(ref, \<lparr> username = DOCKER_USERNAME cfg, password = DOCKER_PASSWORD cfg,
                                  serveraddress = DOCKER_REGISTRY cfg \<rparr>)]"
proof (cases "git_branch_build w")
  case (Inl e)
  with assms show ?thesis by (simp add: buildDockerImage_branch_rejected)
next
  case branch: (Inr branch)
  show ?thesis
  proof (cases "git_log_build w")
    case (Inl e)
    with branch assms show ?thesis by (simp add: buildDockerImage_log_rejected)
  next
    case log: (Inr r)
    show ?thesis
    proof (cases "latest r")
      case None
      with branch log assms show ?thesis by (simp add: buildDockerImage_log_empty)
    next
      case (Some commit)
      then have r: "r = \<lparr> latest = Some commit \<rparr>" by (cases r) simp
      from assms show ?thesis
        unfolding buildDockerImage_queried [OF branch log Some refl refl]
        using branch log r by (auto split: sum.splits)
    qed
  qed
qed

text \<open>
  The exit code on the \<^verbatim>\<open>deploy\<close> path once the gate and the tests have passed: the
  builder and the applier end the process with code 1 from inside their \<^verbatim>\<open>try\<close> blocks
  (\<open>buildDockerImage_queried\<close>, \<open>deployToK8s_outcomes\<close>), while what the builder throws
  before its \<^verbatim>\<open>try\<close> reaches the handler of line 136 and leaves the exit code at 0.
\<close>

lemma deploy_production_exit:
  "git_branch_main w = Inr ''production'' \<Longrightarrow> exec_sync w test_command = Inr u \<Longrightarrow>
   exit_of (cli env (Some ''deploy'') w) =
     (case snd (buildDockerImage (load_config env) w) of
        Returned ref \<Rightarrow> exit_code (snd (deployToK8s (load_config env) w ref))
      | Thrown e \<Rightarrow> 0
      | Exited n \<Rightarrow> n)"
  by (simp add: cli_exit main_deploy_completion deployToK8s_outcomes
      split: completion.splits sum.splits)

lemma deploy_production_all_succeed:
  assumes "git_branch_main w = Inr ''production''"
    and "exec_sync w test_command = Inr ()"
    and "buildDockerImage (load_config env) w = (tr, Returned ref)"
    and "k8s_createNamespacedDeployment w (K8S_NAMESPACE (load_config env))
           (make_deployment (load_config env) ref) = Inr ()"
  shows "trace_of (cli env (Some ''deploy'') w) =
           [GitBranch, ConsoleLog MsgRunningTests, ExecSync test_command,
            ConsoleLog MsgTestsPassed] @ tr @
           [ConsoleLog MsgDeploying,
            K8sApi (CreateNamespacedDeployment (K8S_NAMESPACE (load_config env))
              (make_deployment (load_config env) ref)),
            ConsoleLog MsgDeployed]"
    and "exit_of (cli env (Some ''deploy'') w) = 0"
  using assms
  by (simp_all add: cli_trace cli_exit main_deploy_trace main_deploy_completion
      deployToK8s_outcomes)

lemma cli_branch_rejected:
  "action \<noteq> [] \<Longrightarrow> git_branch_main w = Inl e \<Longrightarrow>
   trace_of (cli env (Some action) w) = [GitBranch, ConsoleError (MsgRejection e)]
   \<and> exit_of (cli env (Some action) w) = 0"
  by (simp add: cli_trace cli_exit main_branch_rejected)

section \<open>The claims\<close>

text \<open>
  C1. On a \<^verbatim>\<open>deploy\<close> run on branch \<^verbatim>\<open>production\<close> the Image Builder can fail without
  the process ending with a non-zero exit code: the controller reads \<^verbatim>\<open>production\<close>, the
  tests pass, and the \<^verbatim>\<open>git.log\<close> query of the Image Builder (line 43, before the
  \<^verbatim>\<open>try\<close> of line 47) rejects. The rejection leaves \<^verbatim>\<open>buildDockerImage\<close> and \<^verbatim>\<open>main\<close>,
  the handler of line 136 prints it, the Deployment Applier does not run, and the exit
  code is 0.
\<close>

theorem C1_builder_query_rejection_exit_0:
  "trace_of (cli Map.empty (Some ''deploy'')
      (ok_world\<lparr>git_log_build := Inl (Error ''fatal: bad object HEAD'')\<rparr>)) =
     [GitBranch, ConsoleLog MsgRunningTests, ExecSync test_command, ConsoleLog MsgTestsPassed,
      ConsoleLog MsgBuilding, GitBranch, GitLog 1,
      ConsoleError (MsgRejection (Error ''fatal: bad object HEAD''))]
   \<and> exit_of (cli Map.empty (Some ''deploy'')
      (ok_world\<lparr>git_log_build := Inl (Error ''fatal: bad object HEAD'')\<rparr>)) = 0"
proof -
  let ?w = "ok_world\<lparr>git_log_build := Inl (Error ''fatal: bad object HEAD'')\<rparr>"
  have gate: "git_branch_main ?w = Inr ''production''"
    and tests: "exec_sync ?w test_command = Inr ()"
    and branch: "git_branch_build ?w = Inr ''production''"
    and log: "git_log_build ?w = Inl (Error ''fatal: bad object HEAD'')"
    by (simp_all add: ok_world_def)
  show ?thesis
    by (simp add: cli_trace cli_exit main_deploy_trace [OF gate tests]
        main_deploy_completion [OF gate tests] buildDockerImage_log_rejected [OF branch log])
qed

text \<open>
  C2. For the branch and the commit hash that the version-control queries of the Image
  Builder return, the image built is \<^verbatim>\<open>REGISTRY/legal-app:TAG\<close>, the tag being
  \<^verbatim>\<open>prod-COMMIT\<close> when the branch is exactly \<^verbatim>\<open>production\<close> and \<^verbatim>\<open>dev-COMMIT\<close> for
  every other branch. In particular, on a \<^verbatim>\<open>deploy\<close> run on branch \<^verbatim>\<open>production\<close> (the
  controller and the builder both read \<^verbatim>\<open>production\<close>) whose tests pass, the one image
  the run builds is \<^verbatim>\<open>REGISTRY/legal-app:prod-COMMIT\<close>, the registry being
  \<^verbatim>\<open>DOCKER_REGISTRY\<close> or its default.
\<close>

theorem C2_tag_from_branch_and_commit:
  assumes "git_branch_build w = Inr branch"
    and "git_log_build w = Inr \<lparr> latest = Some commit \<rparr>"
  shows "built_images (trace_of (buildDockerImage cfg w)) =
           [DOCKER_REGISTRY cfg @ ''/legal-app:''
              @ (if branch = ''production'' then ''prod-'' else ''dev-'') @ commit]
       \<and> (git_branch_main w = Inr ''production'' \<and> exec_sync w test_command = Inr ()
            \<and> branch = ''production'' \<longrightarrow>
          built_images (trace_of (cli env (Some ''deploy'') w)) =
            [or_default (env ''DOCKER_REGISTRY'') ''your-registry.com''
               @ ''/legal-app:prod-'' @ commit])"
proof -
  have q: "\<And>c. buildDockerImage c w =
      (case docker_buildImage w build_src (full_image_name c (image_tag branch commit)) of
         Inl e \<Rightarrow> ([ConsoleLog MsgBuilding, GitBranch, GitLog 1,
                    DockerBuildImage build_src (full_image_name c (image_tag branch commit)),
                    ConsoleError (MsgBuildPushFailed (message e))], Exited 1)
       | Inr _ \<Rightarrow> (fst (buildDockerImage c w), snd (buildDockerImage c w)))
    \<and> built_images (fst (buildDockerImage c w)) = [full_image_name c (image_tag branch commit)]"
    by (simp add: buildDockerImage_queried [OF assms(1) assms(2) _ refl refl]
        split: sum.splits)
  have built: "\<And>c. built_images (fst (buildDockerImage c w)) =
                 [full_image_name c (image_tag branch commit)]"
    using q by blast
  have first: "built_images (trace_of (buildDockerImage cfg w)) =
      [DOCKER_REGISTRY cfg @ ''/legal-app:''
         @ (if branch = ''production'' then ''prod-'' else ''dev-'') @ commit]"
    by (simp add: trace_of_def built full_image_name_def image_tag_def IMAGE_NAME_def)
  have second: "built_images (trace_of (cli env (Some ''deploy'') w)) =
      [or_default (env ''DOCKER_REGISTRY'') ''your-registry.com'' @ ''/legal-app:prod-'' @ commit]"
    if gate: "git_branch_main w = Inr ''production''"
      and tests: "exec_sync w test_command = Inr ()" and prod: "branch = ''production''"
  proof -
    have d: "\<And>ref. built_images (fst (deployToK8s (load_config env) w ref)) = []"
      by (simp add: deployToK8s_outcomes split: sum.splits)
    have "built_images (trace_of (cli env (Some ''deploy'') w)) =
            built_images (fst (buildDockerImage (load_config env) w))"
      by (simp add: cli_trace main_deploy_trace [OF gate tests] built_images_append d
          split: completion.splits)
    with prod show ?thesis
      by (simp add: built full_image_name_def image_tag_def IMAGE_NAME_def load_config_def)
  qed
  from first second show ?thesis by blast
qed

theorem C2_tag_from_branch_and_commit_witness:
  "git_branch_build ok_world = Inr ''production''
   \<and> git_log_build ok_world = Inr \<lparr> latest = Some ''a1b2c3'' \<rparr>
   \<and> git_branch_main ok_world = Inr ''production''
   \<and> exec_sync ok_world test_command = Inr ()
   \<and> built_images (trace_of (cli [''DOCKER_REGISTRY'' \<mapsto> ''reg.example.com''] (Some ''deploy'')
        ok_world)) = [''reg.example.com/legal-app:prod-a1b2c3'']"
proof -
  have b: "git_branch_build ok_world = Inr ''production''"
    and l: "git_log_build ok_world = Inr \<lparr> latest = Some ''a1b2c3'' \<rparr>"
    and m: "git_branch_main ok_world = Inr ''production''"
    and t: "exec_sync ok_world test_command = Inr ()"
    by (simp_all add: ok_world_def)
  show ?thesis
    using b l m t
      C2_tag_from_branch_and_commit [OF b l, of "load_config Map.empty"
        "[''DOCKER_REGISTRY'' \<mapsto> ''reg.example.com'']"]
    by (simp add: or_default_def)
qed

text \<open>
  C3 (as amended). When the branch query of the controller answers with a branch, then
  for action \<^verbatim>\<open>deploy\<close> on every branch other than \<^verbatim>\<open>production\<close>, and on any branch
  for every non-empty action string that is neither \<^verbatim>\<open>test\<close> nor \<^verbatim>\<open>deploy\<close>, the run
  makes the branch query, logs the skip message and ends with exit code 0: no test run, no
  container-engine call, no cluster API call. The empty action string is excluded: line
  132 treats it as a missing argument.
\<close>

theorem C3_skip_path_exit_0:
  assumes "git_branch_main w = Inr branch"
    and "(action = ''deploy'' \<and> branch \<noteq> ''production'')
       \<or> (action \<noteq> [] \<and> action \<noteq> ''test'' \<and> action \<noteq> ''deploy'')"
  shows "trace_of (cli env (Some action) w) = [GitBranch, ConsoleLog MsgSkip]
       \<and> filter is_stage_call (trace_of (cli env (Some action) w)) = []
       \<and> exit_of (cli env (Some action) w) = 0"
proof -
  from assms(2) have ne: "action \<noteq> []" and nt: "action \<noteq> ''test''"
    and ng: "\<not> (action = ''deploy'' \<and> branch = ''production'')"
    by auto
  show ?thesis
    by (simp add: cli_trace [OF ne] cli_exit [OF ne] main_skip [OF assms(1) nt ng]
        is_stage_call_def)
qed

theorem C3_skip_path_exit_0_witness:
  "git_branch_main (ok_world\<lparr>git_branch_main := Inr ''feature-x''\<rparr>) = Inr ''feature-x''
   \<and> ''feature-x'' \<noteq> ''production''
   \<and> trace_of (cli Map.empty (Some ''deploy'') (ok_world\<lparr>git_branch_main := Inr ''feature-x''\<rparr>)) =
       [GitBranch, ConsoleLog MsgSkip]
   \<and> exit_of (cli Map.empty (Some ''deploy'') (ok_world\<lparr>git_branch_main := Inr ''feature-x''\<rparr>)) = 0"
proof -
  have b: "git_branch_main (ok_world\<lparr>git_branch_main := Inr ''feature-x''\<rparr>) = Inr ''feature-x''"
    by simp
  have a: "(''deploy'' = ''deploy'' \<and> ''feature-x'' \<noteq> ''production'')
         \<or> (''deploy'' \<noteq> [] \<and> ''deploy'' \<noteq> ''test'' \<and> ''deploy'' \<noteq> ''deploy'')"
    by simp
  show ?thesis
    using b C3_skip_path_exit_0 [OF b a, of Map.empty] by simp
qed

theorem C3_empty_action_counterexample:
  "[] \<noteq> ''test'' \<and> [] \<noteq> ''deploy''
   \<and> git_branch_main (ok_world\<lparr>git_branch_main := Inr ''feature-x''\<rparr>) = Inr ''feature-x''
   \<and> trace_of (cli Map.empty (Some []) (ok_world\<lparr>git_branch_main := Inr ''feature-x''\<rparr>)) =
       [ConsoleLog MsgUsage]
   \<and> exit_of (cli Map.empty (Some []) (ok_world\<lparr>git_branch_main := Inr ''feature-x''\<rparr>)) = 1"
  by (simp add: cli_def trace_of_def exit_of_def proc_defs)

text \<open>
  C4. When the test command fails (\<^verbatim>\<open>execSync\<close> throws), under action \<^verbatim>\<open>test\<close> or under
  action \<^verbatim>\<open>deploy\<close> on branch \<^verbatim>\<open>production\<close>, the process ends with exit code 1 right
  after printing the failure: the trace ends there, with no image build, no push and no
  cluster API request in it.
\<close>

theorem C4_test_failure_exit_1:
  assumes "git_branch_main w = Inr branch"
    and "exec_sync w test_command = Inl e"
    and "action = ''test'' \<or> (action = ''deploy'' \<and> branch = ''production'')"
  shows "exit_of (cli env (Some action) w) = 1
       \<and> trace_of (cli env (Some action) w) =
           [GitBranch, ConsoleLog MsgRunningTests, ExecSync test_command,
            ConsoleError (MsgTestsFailed (message e))]
       \<and> filter is_docker_call (trace_of (cli env (Some action) w)) = []
       \<and> filter is_k8s_call (trace_of (cli env (Some action) w)) = []"
proof -
  from assms(3) have ne: "action \<noteq> []" by auto
  have m: "main (load_config env) w action =
      ([GitBranch, ConsoleLog MsgRunningTests, ExecSync test_command,
        ConsoleError (MsgTestsFailed (message e))], Exited 1)"
    using assms
    by (auto simp: main_test runUnitTests_fail main_deploy_tests_failed)
  show ?thesis
    by (simp add: cli_trace [OF ne] cli_exit [OF ne] m)
qed

theorem C4_test_failure_exit_1_witness:
  "exec_sync (ok_world\<lparr>exec_sync := (\<lambda>_. Inl (Error ''Command failed: bundle exec rails test''))\<rparr>)
     test_command = Inl (Error ''Command failed: bundle exec rails test'')
   \<and> exit_of (cli Map.empty (Some ''deploy'')
        (ok_world\<lparr>exec_sync := (\<lambda>_. Inl (Error ''Command failed: bundle exec rails test''))\<rparr>)) = 1
   \<and> trace_of (cli Map.empty (Some ''deploy'')
        (ok_world\<lparr>exec_sync := (\<lambda>_. Inl (Error ''Command failed: bundle exec rails test''))\<rparr>)) =
       [GitBranch, ConsoleLog MsgRunningTests, ExecSync test_command,
        ConsoleError (MsgTestsFailed ''Command failed: bundle exec rails test'')]"
proof -
  let ?w = "ok_world\<lparr>exec_sync := (\<lambda>_. Inl (Error ''Command failed: bundle exec rails test''))\<rparr>"
  have b: "git_branch_main ?w = Inr ''production''"
    by (simp add: ok_world_def)
  have t: "exec_sync ?w test_command = Inl (Error ''Command failed: bundle exec rails test'')"
    by simp
  have a: "''deploy'' = ''test'' \<or> (''deploy'' = ''deploy'' \<and> ''production'' = ''production'')"
    by simp
  show ?thesis
    using t C4_test_failure_exit_1 [OF b t a, of Map.empty] by simp
qed

text \<open>
  C5. A failure of the version-control query is not surfaced through the exit code: with
  action \<^verbatim>\<open>test\<close> in a directory that is not a repository, \<^verbatim>\<open>git.branch()\<close> of line 115
  rejects, the handler of line 136 prints the error, no stage runs, and the process ends
  with exit code 0.
\<close>

theorem C5_vcs_unavailable_exit_0:
  "trace_of (cli Map.empty (Some ''test'')
      (ok_world\<lparr>git_branch_main := Inl (Error ''fatal: not a git repository'')\<rparr>)) =
     [GitBranch, ConsoleError (MsgRejection (Error ''fatal: not a git repository''))]
   \<and> exit_of (cli Map.empty (Some ''test'')
      (ok_world\<lparr>git_branch_main := Inl (Error ''fatal: not a git repository'')\<rparr>)) = 0"
  by (simp add: cli_trace cli_exit main_branch_rejected)

text \<open>
  C6. Every call of the Deployment Applier sends the cluster API exactly one request, a
  create request for the namespace \<^verbatim>\<open>K8S_NAMESPACE\<close> (\<^verbatim>\<open>default\<close> when the variable is
  unset or empty, its value otherwise), whatever the cluster holds: no read, patch or
  replace request. The descriptor sent has that namespace, 3 replicas, the selector and
  the pod label \<^verbatim>\<open>app: legal-app\<close>, and one container, with the given image reference,
  container port 3000 and the environment variable \<^verbatim>\<open>RAILS_ENV=production\<close>. A whole run
  sends the cluster API nothing, or that one create request.
\<close>

theorem C6_descriptor_and_unconditional_create:
  "k8s_requests (trace_of (deployToK8s (load_config env) w imageName)) =
     [CreateNamespacedDeployment (or_default (env ''K8S_NAMESPACE'') ''default'')
        (make_deployment (load_config env) imageName)]
   \<and> or_default None ''default'' = ''default''
   \<and> or_default (Some []) ''default'' = ''default''
   \<and> or_default (Some (c # cs)) ''default'' = c # cs
   \<and> metadata_namespace (make_deployment (load_config env) imageName) =
       or_default (env ''K8S_NAMESPACE'') ''default''
   \<and> replicas (spec (make_deployment (load_config env) imageName)) = 3
   \<and> matchLabels (spec (make_deployment (load_config env) imageName)) = [(''app'', ''legal-app'')]
   \<and> template_labels (template (spec (make_deployment (load_config env) imageName))) =
       [(''app'', ''legal-app'')]
   \<and> map image (containers (template (spec (make_deployment (load_config env) imageName)))) =
       [imageName]
   \<and> map ports (containers (template (spec (make_deployment (load_config env) imageName)))) =
       [[3000]]
   \<and> map env_vars (containers (template (spec (make_deployment (load_config env) imageName)))) =
       [[\<lparr> env_name = ''RAILS_ENV'', env_value = ''production'' \<rparr>]]
   \<and> (k8s_requests (trace_of (cli env argv2 w)) = []
      \<or> (\<exists>ref. k8s_requests (trace_of (cli env argv2 w)) =
            [CreateNamespacedDeployment (or_default (env ''K8S_NAMESPACE'') ''default'')
               (make_deployment (load_config env) ref)]))"
proof -
  have ns: "K8S_NAMESPACE (load_config env) = or_default (env ''K8S_NAMESPACE'') ''default''"
    by (simp add: load_config_def)
  have one: "k8s_requests (trace_of (deployToK8s (load_config env) w imageName)) =
     [CreateNamespacedDeployment (or_default (env ''K8S_NAMESPACE'') ''default'')
        (make_deployment (load_config env) imageName)]"
    by (simp add: trace_of_def k8s_requests_deployToK8s ns)
  have fields: "metadata_namespace (make_deployment (load_config env) imageName) =
       or_default (env ''K8S_NAMESPACE'') ''default''
   \<and> replicas (spec (make_deployment (load_config env) imageName)) = 3
   \<and> matchLabels (spec (make_deployment (load_config env) imageName)) = [(''app'', ''legal-app'')]
   \<and> template_labels (template (spec (make_deployment (load_config env) imageName))) =
       [(''app'', ''legal-app'')]
   \<and> map image (containers (template (spec (make_deployment (load_config env) imageName)))) =
       [imageName]
   \<and> map ports (containers (template (spec (make_deployment (load_config env) imageName)))) =
       [[3000]]
   \<and> map env_vars (containers (template (spec (make_deployment (load_config env) imageName)))) =
       [[\<lparr> env_name = ''RAILS_ENV'', env_value = ''production'' \<rparr>]]"
    by (simp add: make_deployment_def ns)
  have dflt: "or_default None ''default'' = ''default''
      \<and> or_default (Some []) ''default'' = ''default''
      \<and> or_default (Some (c # cs)) ''default'' = c # cs"
    by (simp add: or_default_def)
  have run: "k8s_requests (trace_of (cli env argv2 w)) = []
      \<or> (\<exists>ref. k8s_requests (trace_of (cli env argv2 w)) =
            [CreateNamespacedDeployment (or_default (env ''K8S_NAMESPACE'') ''default'')
               (make_deployment (load_config env) ref)])"
    unfolding k8s_requests_cli ns by (auto split: completion.splits)
  from one dflt fields run show ?thesis by blast
qed

theorem C6_descriptor_and_unconditional_create_witness:
  "k8s_requests (trace_of (cli Map.empty (Some ''deploy'') ok_world)) =
     [CreateNamespacedDeployment ''default''
        (make_deployment (load_config Map.empty) ''your-registry.com/legal-app:prod-a1b2c3'')]
   \<and> metadata_namespace
        (make_deployment (load_config Map.empty) ''your-registry.com/legal-app:prod-a1b2c3'') =
       ''default''
   \<and> replicas (spec
        (make_deployment (load_config Map.empty) ''your-registry.com/legal-app:prod-a1b2c3'')) = 3"
  using C6_descriptor_and_unconditional_create
    [of Map.empty ok_world "''your-registry.com/legal-app:prod-a1b2c3''" _ _ "Some ''deploy''"]
  by (simp add: cli_def main_def runUnitTests_def buildDockerImage_def deployToK8s_def
      latest_hash_def trace_of_def ok_world_def proc_defs Let_def load_config_def or_default_def
      full_image_name_def image_tag_def IMAGE_NAME_def)

text \<open>
  C7. With no action argument on the command line the script prints the usage line and
  ends with exit code 1, whatever the environment and the collaborators: the trace holds
  that one console line, so no version-control query, test run, build, push or deployment
  was made.
\<close>

theorem C7_missing_action_usage_exit_1:
  "trace_of (cli env None w) = [ConsoleLog MsgUsage] \<and> exit_of (cli env None w) = 1"
  by (simp add: cli_def trace_of_def exit_of_def proc_defs)

text \<open>
  C8. In every run that sends the cluster API a request, the Image Builder of that run
  returned an image reference, the request is the create request for the descriptor made
  from that reference, the image of the descriptor's container is that reference, and it
  is the reference the builder built and pushed in that run.
\<close>

theorem C8_descriptor_image_is_builders_result:
  assumes "k8s_requests (trace_of (cli env argv2 w)) \<noteq> []"
  shows "\<exists>tr ref.
           buildDockerImage (load_config env) w = (tr, Returned ref)
         \<and> k8s_requests (trace_of (cli env argv2 w)) =
             [CreateNamespacedDeployment (K8S_NAMESPACE (load_config env))
                (make_deployment (load_config env) ref)]
         \<and> map image (containers (template (spec (make_deployment (load_config env) ref)))) = [ref]
         \<and> built_images tr = [ref]
         \<and> map fst (pushes tr) = [ref]"
proof -
  obtain tr c where b: "buildDockerImage (load_config env) w = (tr, c)"
    by (cases "buildDockerImage (load_config env) w")
  from assms b obtain ref where c: "c = Returned ref"
    and req: "k8s_requests (trace_of (cli env argv2 w)) =
             [CreateNamespacedDeployment (K8S_NAMESPACE (load_config env))
                (make_deployment (load_config env) ref)]"
    unfolding k8s_requests_cli by (cases c) (auto split: if_splits)
  have b': "buildDockerImage (load_config env) w = (tr, Returned ref)"
    using b c by simp
  from buildDockerImage_Returned [OF b']
  have built: "built_images tr = [ref]" and pushed: "map fst (pushes tr) = [ref]"
    by auto
  have img: "map image (containers (template (spec (make_deployment (load_config env) ref)))) = [ref]"
    by (simp add: make_deployment_def)
  show ?thesis
    by (intro exI [of _ tr] exI [of _ ref] conjI) (fact b' req img built pushed)+
qed

theorem C8_descriptor_image_is_builders_result_witness:
  "k8s_requests (trace_of (cli Map.empty (Some ''deploy'') ok_world)) \<noteq> []
   \<and> (\<exists>tr ref.
           buildDockerImage (load_config Map.empty) ok_world = (tr, Returned ref)
         \<and> k8s_requests (trace_of (cli Map.empty (Some ''deploy'') ok_world)) =
             [CreateNamespacedDeployment (K8S_NAMESPACE (load_config Map.empty))
                (make_deployment (load_config Map.empty) ref)]
         \<and> map image (containers (template (spec (make_deployment (load_config Map.empty) ref)))) = [ref]
         \<and> built_images tr = [ref]
         \<and> map fst (pushes tr) = [ref])"
proof -
  have h: "k8s_requests (trace_of (cli Map.empty (Some ''deploy'') ok_world)) \<noteq> []"
    by (simp add: cli_def main_def runUnitTests_def buildDockerImage_def deployToK8s_def
        latest_hash_def trace_of_def ok_world_def proc_defs Let_def)
  from h C8_descriptor_image_is_builders_result [OF h] show ?thesis
    by (rule conjI)
qed

text \<open>
  C9. The Image Builder takes no branch and no commit from the controller: it asks the
  version-control tool itself, so a run that reaches it makes two branch queries and one
  log query, and what the builder does is the same whatever the controller's query
  answered. When the controller reads \<^verbatim>\<open>production\<close> and the tests pass, but the
  builder's own query reads another branch, the image the run builds, and pushes once the
  build has succeeded, is \<^verbatim>\<open>REGISTRY/legal-app:dev-COMMIT\<close>.
\<close>

theorem C9_builder_queries_branch_itself:
  assumes "git_branch_main w = Inr ''production''"
    and "exec_sync w test_command = Inr ()"
    and "git_branch_build w = Inr branch"
    and "branch \<noteq> ''production''"
    and "git_log_build w = Inr \<lparr> latest = Some commit \<rparr>"
    and "ref = DOCKER_REGISTRY (load_config env) @ ''/legal-app:dev-'' @ commit"
  shows "filter is_vcs_call (trace_of (cli env (Some ''deploy'') w)) =
           [GitBranch, GitBranch, GitLog 1]
       \<and> built_images (trace_of (cli env (Some ''deploy'') w)) = [ref]
       \<and> map fst (pushes (trace_of (cli env (Some ''deploy'') w))) =
           (if docker_buildImage w build_src ref = Inr () \<and> docker_followProgress w = Inr ()
            then [ref] else [])
       \<and> buildDockerImage (load_config env) (w\<lparr>git_branch_main := answer\<rparr>) =
           buildDockerImage (load_config env) w"
proof -
  have r: "full_image_name (load_config env) (image_tag branch commit) = ref"
    using assms(4,6) by (simp add: full_image_name_def image_tag_def IMAGE_NAME_def)
  note b = buildDockerImage_queried [OF assms(3) assms(5) _ r [symmetric] refl, simplified]
  have run: "filter is_vcs_call (trace_of (cli env (Some ''deploy'') w)) =
           [GitBranch, GitBranch, GitLog 1]
       \<and> built_images (trace_of (cli env (Some ''deploy'') w)) = [ref]
       \<and> map fst (pushes (trace_of (cli env (Some ''deploy'') w))) =
           (if docker_buildImage w build_src ref = Inr () \<and> docker_followProgress w = Inr ()
            then [ref] else [])"
    by (simp add: cli_trace main_deploy_trace [OF assms(1) assms(2)]
        main_deploy_completion [OF assms(1) assms(2)] b deployToK8s_outcomes
        split: sum.splits)
  have same: "buildDockerImage (load_config env) (w\<lparr>git_branch_main := answer\<rparr>) =
           buildDockerImage (load_config env) w"
    by (simp add: buildDockerImage_def)
  from run same show ?thesis by blast
qed

theorem C9_builder_queries_branch_itself_witness:
  "git_branch_main (ok_world\<lparr>git_branch_build := Inr ''hotfix''\<rparr>) = Inr ''production''
   \<and> git_branch_build (ok_world\<lparr>git_branch_build := Inr ''hotfix''\<rparr>) = Inr ''hotfix''
   \<and> ''hotfix'' \<noteq> ''production''
   \<and> built_images (trace_of (cli Map.empty (Some ''deploy'')
        (ok_world\<lparr>git_branch_build := Inr ''hotfix''\<rparr>))) = [''your-registry.com/legal-app:dev-a1b2c3'']
   \<and> map fst (pushes (trace_of (cli Map.empty (Some ''deploy'')
        (ok_world\<lparr>git_branch_build := Inr ''hotfix''\<rparr>)))) = [''your-registry.com/legal-app:dev-a1b2c3'']"
proof -
  let ?w = "ok_world\<lparr>git_branch_build := Inr ''hotfix''\<rparr>"
  have m: "git_branch_main ?w = Inr ''production''"
    and t: "exec_sync ?w test_command = Inr ()"
    and b: "git_branch_build ?w = Inr ''hotfix''"
    and n: "''hotfix'' \<noteq> ''production''"
    and l: "git_log_build ?w = Inr \<lparr> latest = Some ''a1b2c3'' \<rparr>"
    and r: "''your-registry.com/legal-app:dev-a1b2c3'' =
              DOCKER_REGISTRY (load_config Map.empty) @ ''/legal-app:dev-'' @ ''a1b2c3''"
    by (simp_all add: ok_world_def load_config_def or_default_def)
  have ok: "docker_buildImage ?w build_src ''your-registry.com/legal-app:dev-a1b2c3'' = Inr ()
          \<and> docker_followProgress ?w = Inr ()"
    by (simp add: ok_world_def)
  show ?thesis
    using m b n ok C9_builder_queries_branch_itself [OF m t b n l r] by simp
qed

text \<open>
  C10. The registry credentials are read from \<^verbatim>\<open>DOCKER_USERNAME\<close> and \<^verbatim>\<open>DOCKER_PASSWORD\<close>
  and are not checked: set or unset, a \<^verbatim>\<open>deploy\<close> run on \<^verbatim>\<open>production\<close> whose tests,
  queries and build succeed goes through the same steps up to the push, with no error
  printed, and makes the push with the two values as they are (\<open>None\<close> for a variable
  that is unset) in the auth configuration. From there the run depends on the answer of
  the push alone: a rejection is printed as a build/push failure with exit code 1,
  otherwise the run goes on to the Deployment Applier.
\<close>

theorem C10_credentials_unchecked_push_attempted:
  assumes "git_branch_main w = Inr ''production''"
    and "exec_sync w test_command = Inr ()"
    and "git_branch_build w = Inr branch"
    and "git_log_build w = Inr \<lparr> latest = Some commit \<rparr>"
    and "ref = full_image_name (load_config env) (image_tag branch commit)"
    and "auth = \<lparr> username = env ''DOCKER_USERNAME'', password = env ''DOCKER_PASSWORD'',
                   serveraddress = DOCKER_REGISTRY (load_config env) \<rparr>"
    and "docker_buildImage w build_src ref = Inr ()"
    and "docker_followProgress w = Inr ()"
  shows "trace_of (cli env (Some ''deploy'') w) =
           [GitBranch, ConsoleLog MsgRunningTests, ExecSync test_command,
            ConsoleLog MsgTestsPassed, ConsoleLog MsgBuilding, GitBranch, GitLog 1,
            DockerBuildImage build_src ref, DockerFollowProgress, ConsoleLog MsgPushing,
            DockerPush ref auth]
           @ (case image_push w ref auth of
                Inl e \<Rightarrow> [ConsoleError (MsgBuildPushFailed (message e))]
              | Inr _ \<Rightarrow> ConsoleLog (MsgPushed ref) # trace_of (deployToK8s (load_config env) w ref))
       \<and> exit_of (cli env (Some ''deploy'') w) =
           (case image_push w ref auth of
              Inl e \<Rightarrow> 1
            | Inr _ \<Rightarrow> exit_of (deployToK8s (load_config env) w ref))"
proof -
  have a: "auth = \<lparr> username = DOCKER_USERNAME (load_config env),
                     password = DOCKER_PASSWORD (load_config env),
                     serveraddress = DOCKER_REGISTRY (load_config env) \<rparr>"
    using assms(6) by (simp add: load_config_def)
  note b = buildDockerImage_queried [OF assms(3) assms(4) _ assms(5) a, simplified,
      unfolded assms(7) assms(8), simplified]
  have ne: "''deploy'' \<noteq> []" by simp
  show ?thesis
    unfolding cli_trace [OF ne] cli_exit [OF ne]
    by (simp add: main_deploy_trace [OF assms(1) assms(2)]
        main_deploy_completion [OF assms(1) assms(2)] b trace_of_def exit_of_def
        deployToK8s_outcomes split: sum.splits)
qed

theorem C10_credentials_unchecked_push_attempted_witness:
  "[''DOCKER_REGISTRY'' \<mapsto> ''reg.example.com''] ''DOCKER_USERNAME'' = None
   \<and> [''DOCKER_REGISTRY'' \<mapsto> ''reg.example.com''] ''DOCKER_PASSWORD'' = None
   \<and> pushes (trace_of (cli [''DOCKER_REGISTRY'' \<mapsto> ''reg.example.com''] (Some ''deploy'') ok_world)) =
       [(''reg.example.com/legal-app:prod-a1b2c3'',
         \<lparr> username = None, password = None, serveraddress = ''reg.example.com'' \<rparr>)]
   \<and> exit_of (cli [''DOCKER_REGISTRY'' \<mapsto> ''reg.example.com''] (Some ''deploy'') ok_world) = 0"
proof -
  let ?env = "[''DOCKER_REGISTRY'' \<mapsto> ''reg.example.com'']"
  have m: "git_branch_main ok_world = Inr ''production''"
    and t: "exec_sync ok_world test_command = Inr ()"
    and b: "git_branch_build ok_world = Inr ''production''"
    and l: "git_log_build ok_world = Inr \<lparr> latest = Some ''a1b2c3'' \<rparr>"
    and d: "docker_buildImage ok_world build_src
              (full_image_name (load_config ?env) (image_tag ''production'' ''a1b2c3'')) = Inr ()"
    and p: "docker_followProgress ok_world = Inr ()"
    by (simp_all add: ok_world_def)
  show ?thesis
    using C10_credentials_unchecked_push_attempted [OF m t b l refl refl d p]
    by (simp add: ok_world_def load_config_def or_default_def full_image_name_def image_tag_def
        IMAGE_NAME_def trace_of_def exit_of_def deployToK8s_outcomes)
qed

end
